theory Spec2Isabelle
  imports Main
begin

section \<open>Data model of the agent dashboard\<close>

text \<open>
  The dashboard is the React component \<open>App\<close> (the variant that calls the hook
  \<open>useAgentPolling\<close> and shows \<open>AskUserModal\<close>) together with that hook. Its
  state is the fourteen \<open>useState\<close> cells of \<open>App\<close>.
  The object returned by the \<open>/status\<close> endpoint is kept whole in the cell \<open>status\<close>;
  its field \<open>status.status\<close> may be absent (the cell starts as the empty object).
\<close>

record snapshot =
  sn_status :: "string option"
  sn_current_task :: "string option"
  sn_current_plan :: "string list option"
  sn_plan_step :: "nat option"
  sn_history :: "string list option"

definition empty_snapshot :: snapshot where
  "empty_snapshot =
     \<lparr>sn_status = None, sn_current_task = None, sn_current_plan = None,
      sn_plan_step = None, sn_history = None\<rparr>"

text \<open>
  A timer made by \<open>setTimeout\<close>: still pending with the time at which it is due,
  cancelled by \<open>clearTimeout\<close>, or already run.
\<close>

datatype timer = Pending nat | Cleared | Fired

text \<open>
  The state of the page. After the React cells come the calls of \<open>alert\<close> made so
  far (oldest first), the clock in milliseconds, and the variables of the closure that the
  effect of \<open>useAgentPolling\<close> created when it last ran: the dependency values
  \<open>[fresh, quotaError]\<close> of that run, the value of the parameter
  \<open>editingUserInput\<close> that the function \<open>poll\<close> of that run closed over, the local
  variable \<open>planningTimer\<close> (\<open>None\<close> while it is undefined, otherwise the timer whose
  id it holds; an id is never falsy, and a closure makes at most one timer, so one slot is
  enough) and whether the 3000 ms interval of that run is set.
\<close>

record app =
  task :: string
  userInput :: string
  status :: snapshot
  logs :: "string list"
  screenshotUrl :: string
  loading :: bool
  logsOpen :: bool
  fresh :: bool
  planningStuck :: bool
  editingUserInput :: bool
  killing :: bool
  quotaError :: bool
  pendingQuestion :: "string option"
  pendingAnswer :: string
  alerts :: "string list"
  now :: nat
  dep_fresh :: bool
  dep_quotaError :: bool
  poll_editingUserInput :: bool
  planningTimer :: "timer option"
  interval :: bool

section \<open>services/api.js\<close>

definition API_BASE :: string where
  "API_BASE = ''http://127.0.0.1:8000''"

definition digit :: "nat \<Rightarrow> char" where
  "digit d = char_of (48 + d)"

fun decimal :: "nat \<Rightarrow> string" where
  "decimal n = (if n < 10 then [digit n] else decimal (n div 10) @ [digit (n mod 10)])"

declare decimal.simps [simp del]

text \<open>\<open>fetchScreenshotUrl\<close>, with the value of \<open>Date.now()\<close> as argument.\<close>

definition fetchScreenshotUrl :: "nat \<Rightarrow> string" where
  "fetchScreenshotUrl t = API_BASE @ ''/screenshot?'' @ decimal t"

text \<open>
  The outcome of a \<open>POST\<close>: the promise resolves, or it rejects with an error whose
  \<open>response.data.error\<close> is the given text when there is one.
\<close>

datatype http_result = Resolved | Rejected "string option"

text \<open>
  What the three \<open>GET\<close> requests of one poll cycle deliver. \<open>None\<close> is a rejected
  request; inside, \<open>None\<close> is a response without the field \<open>logs\<close> (or
  \<open>user_input\<close>).
\<close>

record poll_resp =
  r_status :: "snapshot option"
  r_logs :: "string list option option"
  r_user_input :: "string option option"

section \<open>hooks/useAgentPolling.js\<close>

definition clearTimeout :: "timer option \<Rightarrow> timer option" where
  "clearTimeout t = (case t of Some (Pending d) \<Rightarrow> Some Cleared | _ \<Rightarrow> t)"

text \<open>
  One run of \<open>poll\<close>, all three requests answered before anything else happens.
  A rejected request ends the run where it stands: the \<open>await\<close> throws and nothing
  catches it.
\<close>

definition poll :: "poll_resp \<Rightarrow> app \<Rightarrow> app" where
  "poll r w =
     (case r_status r of
        None \<Rightarrow> w
      | Some st \<Rightarrow>
          let w1 = w\<lparr>status := st\<rparr> in
          if sn_status st = Some ''quota_exceeded'' then w1\<lparr>planningStuck := False\<rparr>
          else
            let w2 =
              (if sn_status st = Some ''planning''
               then (if planningTimer w1 = None
                     then w1\<lparr>planningTimer := Some (Pending (now w1 + 30000))\<rparr>
                     else w1)
               else w1\<lparr>planningStuck := False,
                       planningTimer := clearTimeout (planningTimer w1)\<rparr>)
            in
            (case r_logs r of
               None \<Rightarrow> w2
             | Some lg \<Rightarrow>
                 let w3 = w2\<lparr>logs := (case lg of None \<Rightarrow> [] | Some l \<Rightarrow> l)\<rparr> in
                 (case r_user_input r of
                    None \<Rightarrow> w3
                  | Some ui \<Rightarrow>
                      let w4 =
                        (if \<not> poll_editingUserInput w3
                         then w3\<lparr>userInput := (case ui of None \<Rightarrow> '''' | Some u \<Rightarrow> u)\<rparr>
                         else w3)
                      in w4\<lparr>screenshotUrl := fetchScreenshotUrl (now w4)\<rparr>)))"

text \<open>
  The effect of the hook. React runs it after the first render and after every render in
  which \<open>fresh\<close> or \<open>quotaError\<close> differs from the previous run; a render that
  changes only \<open>editingUserInput\<close> leaves the old closure, and the value it holds, in
  place. Before a new run the cleanup of the old one cancels its interval and its timer.
\<close>

definition effect_cleanup :: "app \<Rightarrow> app" where
  "effect_cleanup w = w\<lparr>interval := False, planningTimer := clearTimeout (planningTimer w)\<rparr>"

definition effect_run :: "app \<Rightarrow> app" where
  "effect_run w =
     w\<lparr>dep_fresh := fresh w, dep_quotaError := quotaError w,
       poll_editingUserInput := editingUserInput w,
       planningTimer := None,
       interval := (\<not> fresh w \<and> \<not> quotaError w)\<rparr>"

definition render :: "app \<Rightarrow> app" where
  "render w =
     (if fresh w = dep_fresh w \<and> quotaError w = dep_quotaError w then w
      else effect_run (effect_cleanup w))"

text \<open>
  Time passes: the clock moves on by \<open>d\<close> milliseconds, and the callback of a pending
  timer that has become due, \<open>() => setPlanningStuck(true)\<close>, runs.
\<close>

definition elapse :: "nat \<Rightarrow> app \<Rightarrow> app" where
  "elapse d w =
     (let w1 = w\<lparr>now := now w + d\<rparr> in
      case planningTimer w1 of
        Some (Pending due) \<Rightarrow>
          if due \<le> now w1 then w1\<lparr>planningStuck := True, planningTimer := Some Fired\<rparr>
          else w1
      | _ \<Rightarrow> w1)"

section \<open>App.js\<close>

text \<open>The page as first rendered at clock value \<open>t\<close>, its effects run once.\<close>

definition mount :: "nat \<Rightarrow> app" where
  "mount t =
     effect_run
       \<lparr>task = '''', userInput = '''', status = empty_snapshot, logs = [],
        screenshotUrl = '''', loading = False, logsOpen = False, fresh = True,
        planningStuck = False, editingUserInput = False, killing = False,
        quotaError = False, pendingQuestion = None, pendingAnswer = '''',
        alerts = [], now = t, dep_fresh = True, dep_quotaError = False,
        poll_editingUserInput = False, planningTimer = None, interval = False\<rparr>"

definition alert :: "string \<Rightarrow> app \<Rightarrow> app" where
  "alert msg w = w\<lparr>alerts := alerts w @ [msg]\<rparr>"

text \<open>The poll of \<open>/pending_question\<close>; a rejected request is caught and ignored.\<close>

definition poll_question :: "string option option \<Rightarrow> app \<Rightarrow> app" where
  "poll_question r w = (case r of None \<Rightarrow> w | Some q \<Rightarrow> w\<lparr>pendingQuestion := q\<rparr>)"

text \<open>\<open>submitTask\<close>, up to its \<open>await\<close> and from there on.\<close>

definition submitTask_begin :: "app \<Rightarrow> app" where
  "submitTask_begin w = w\<lparr>loading := True\<rparr>"

definition task_error_message :: "string option \<Rightarrow> string" where
  "task_error_message e =
     (case e of
        None \<Rightarrow> ''Failed to submit task''
      | Some m \<Rightarrow> if m = '''' then ''Failed to submit task'' else m)"

definition submitTask_end :: "http_result \<Rightarrow> app \<Rightarrow> app" where
  "submitTask_end r w =
     (let w1 = (case r of
                  Resolved \<Rightarrow> w\<lparr>task := '''', fresh := False\<rparr>
                | Rejected e \<Rightarrow> alert (task_error_message e) w)
      in w1\<lparr>loading := False\<rparr>)"

definition submitTask :: "http_result \<Rightarrow> app \<Rightarrow> app" where
  "submitTask r w = submitTask_end r (submitTask_begin w)"

definition submitUserInput :: "http_result \<Rightarrow> app \<Rightarrow> app" where
  "submitUserInput r w =
     (let w1 = w\<lparr>loading := True\<rparr>;
          w2 = (case r of
                  Resolved \<Rightarrow> w1\<lparr>editingUserInput := False\<rparr>
                | Rejected e \<Rightarrow> alert ''Failed to send direction/feedback'' w1)
      in w2\<lparr>loading := False\<rparr>)"

definition resetAgent :: "http_result \<Rightarrow> app \<Rightarrow> app" where
  "resetAgent r w =
     (let w1 = w\<lparr>loading := True\<rparr>;
          w2 = (case r of
                  Resolved \<Rightarrow>
                    w1\<lparr>task := '''', userInput := '''', status := empty_snapshot,
                       logs := [], screenshotUrl := '''', logsOpen := False,
                       fresh := True, quotaError := False\<rparr>
                | Rejected e \<Rightarrow> alert ''Failed to reset agent'' w1)
      in w2\<lparr>loading := False\<rparr>)"

text \<open>
  \<open>window.location.reload()\<close> loads the page anew: every cell starts again from its
  initial value. The alerts already shown stay in the record of what was shown.
\<close>

definition reload :: "app \<Rightarrow> app" where
  "reload w = (mount (now w))\<lparr>alerts := alerts w\<rparr>"

text \<open>
  \<open>killSwitch\<close>: first the assignments the handler itself makes, then the handler as a
  whole, which on success ends in the reload.
\<close>

definition killSwitch_writes :: "http_result \<Rightarrow> app \<Rightarrow> app" where
  "killSwitch_writes r w =
     (let w1 = w\<lparr>killing := True, loading := True\<rparr>;
          w2 = (case r of
                  Resolved \<Rightarrow>
                    w1\<lparr>task := '''', status := empty_snapshot, logs := [],
                       screenshotUrl := '''', logsOpen := False, userInput := '''',
                       fresh := True, killing := False\<rparr>
                | Rejected e \<Rightarrow> (alert ''Failed to kill/reset agent'' w1)\<lparr>killing := False\<rparr>)
      in w2\<lparr>loading := False\<rparr>)"

definition killSwitch :: "http_result \<Rightarrow> app \<Rightarrow> app" where
  "killSwitch r w =
     (case r of
        Resolved \<Rightarrow> reload (killSwitch_writes r w)
      | Rejected e \<Rightarrow> killSwitch_writes r w)"

definition clearLogs :: "http_result \<Rightarrow> app \<Rightarrow> app" where
  "clearLogs r w =
     (let w1 = w\<lparr>loading := True\<rparr>;
          w2 = (case r of
                  Resolved \<Rightarrow> w1\<lparr>logs := []\<rparr>
                | Rejected e \<Rightarrow> alert ''Failed to clear logs'' w1)
      in w2\<lparr>loading := False\<rparr>)"

text \<open>
  \<open>submitPendingAnswer\<close> has no \<open>try\<close>: when the request is rejected the handler
  stops at the \<open>await\<close> and assigns nothing.
\<close>

definition submitPendingAnswer :: "http_result \<Rightarrow> app \<Rightarrow> app" where
  "submitPendingAnswer r w =
     (case r of
        Resolved \<Rightarrow> w\<lparr>pendingQuestion := None, pendingAnswer := ''''\<rparr>
      | Rejected e \<Rightarrow> w)"

subsection \<open>What the page renders\<close>

definition ready_status :: "snapshot \<Rightarrow> bool" where
  "ready_status s =
     (sn_status s = Some ''idle'' \<or> sn_status s = Some ''completed''
      \<or> sn_status s = Some ''aborted'')"

text \<open>The \<open>loading\<close> property handed to \<open>TaskInput\<close>, which disables its text field.\<close>

definition taskInput_loading :: "app \<Rightarrow> bool" where
  "taskInput_loading w =
     (loading w \<or> killing w \<or> quotaError w \<or> (\<not> fresh w \<and> \<not> ready_status (status w)))"

text \<open>The \<open>disabled\<close> property of the Send button of \<open>TaskInput\<close>.\<close>

definition taskSend_disabled :: "app \<Rightarrow> bool" where
  "taskSend_disabled w = (taskInput_loading w \<or> task w = '''')"

definition userInput_loading :: "app \<Rightarrow> bool" where
  "userInput_loading w = (loading w \<or> killing w \<or> quotaError w)"

text \<open>
  The three alternatives of the button row: the quota banner, the stuck-in-planning
  banner (both with Reset and Kill), and the normal row, where Reset appears only at a
  ready status of a page that is not fresh.
\<close>

definition resetButton_shown :: "app \<Rightarrow> bool" where
  "resetButton_shown w =
     (if quotaError w then True
      else if planningStuck w then True
      else \<not> fresh w \<and> ready_status (status w))"

definition killButton_shown :: "app \<Rightarrow> bool" where
  "killButton_shown w =
     (if quotaError w then True
      else if planningStuck w then True
      else \<not> planningStuck w)"

definition buttons_disabled :: "app \<Rightarrow> bool" where
  "buttons_disabled w = (loading w \<or> killing w)"

definition quotaBanner_shown :: "app \<Rightarrow> bool" where
  "quotaBanner_shown w = quotaError w"

subsection \<open>Events\<close>

text \<open>
  What can happen to the page, one event at a time. A handler that changes a cell is
  followed by a render. The interval calls \<open>poll\<close> only while it is set. A cycle is
  taken as a whole: one that is still waiting for a request when the effect is cleaned up,
  and assigns afterwards, is not among the events.
\<close>

datatype event =
    Elapse nat
  | Poll poll_resp
  | PollQuestion "string option option"
  | Focus
  | Blur
  | ChangeTask string
  | ChangeUserInput string
  | ChangeAnswer string
  | SubmitTask http_result
  | SubmitUserInput http_result
  | ResetAgent http_result
  | KillSwitch http_result
  | ClearLogs http_result
  | SubmitPendingAnswer http_result

fun step :: "event \<Rightarrow> app \<Rightarrow> app" where
  "step (Elapse d) w = elapse d w"
| "step (Poll r) w = (if interval w then render (poll r w) else w)"
| "step (PollQuestion q) w = render (poll_question q w)"
| "step Focus w = render (w\<lparr>editingUserInput := True\<rparr>)"
| "step Blur w = render (w\<lparr>editingUserInput := False\<rparr>)"
| "step (ChangeTask t) w = render (w\<lparr>task := t\<rparr>)"
| "step (ChangeUserInput t) w = render (w\<lparr>userInput := t\<rparr>)"
| "step (ChangeAnswer t) w = render (w\<lparr>pendingAnswer := t\<rparr>)"
| "step (SubmitTask r) w = render (submitTask r w)"
| "step (SubmitUserInput r) w = render (submitUserInput r w)"
| "step (ResetAgent r) w = render (resetAgent r w)"
| "step (KillSwitch r) w = render (killSwitch r w)"
| "step (ClearLogs r) w = render (clearLogs r w)"
| "step (SubmitPendingAnswer r) w = render (submitPendingAnswer r w)"

fun run :: "event list \<Rightarrow> app \<Rightarrow> app" where
  "run [] w = w"
| "run (e # es) w = run es (step e w)"

text \<open>A poll cycle in which every request is answered, with the given status text.\<close>

definition answered :: "string \<Rightarrow> string list \<Rightarrow> string \<Rightarrow> poll_resp" where
  "answered s lg ui =
     \<lparr>r_status = Some (empty_snapshot\<lparr>sn_status := Some s\<rparr>),
      r_logs = Some (Some lg), r_user_input = Some (Some ui)\<rparr>"

subsection \<open>Consistency of the polling effect, and the runs used below\<close>

text \<open>
  After a render the closure of the polling effect belongs to the current values of
  \<open>fresh\<close> and \<open>quotaError\<close>, and its interval is set exactly when both are false.
\<close>

definition effect_synced :: "app \<Rightarrow> bool" where
  "effect_synced w =
     (dep_fresh w = fresh w \<and> dep_quotaError w = quotaError w
      \<and> interval w = (\<not> fresh w \<and> \<not> quotaError w))"

definition start_task :: "event list" where
  "start_task = [ChangeTask ''Open the calculator app'', SubmitTask Resolved]"

definition planning_poll :: event where
  "planning_poll = Poll (answered ''planning'' [] '''')"

definition idle_poll :: event where
  "idle_poll = Poll (answered ''idle'' [] '''')"

definition quota_poll :: event where
  "quota_poll = Poll (answered ''quota_exceeded'' [] '''')"

text \<open>\<open>n\<close> further poll cycles, 3000 ms apart, each reporting \<open>planning\<close>.\<close>

fun keep_planning :: "nat \<Rightarrow> event list" where
  "keep_planning 0 = []"
| "keep_planning (Suc n) = Elapse 3000 # planning_poll # keep_planning n"

text \<open>
  A task is sent, a first poll comes back, then the operator puts the cursor into the
  direction field and types.
\<close>

definition typing_trace :: "event list" where
  "typing_trace = start_task @ [planning_poll, Focus, ChangeUserInput ''please wait'']"

text \<open>The agent plans, is seen idle once, and plans again.\<close>

definition reentry :: "event list" where
  "reentry = start_task @ [planning_poll, Elapse 3000, idle_poll, Elapse 3000, planning_poll]"


definition typed_task :: app where
  "typed_task = step (ChangeTask ''Open the calculator app'') (mount 0)"

definition busy :: app where
  "busy = run (start_task @ [planning_poll]) (mount 0)"

definition quota_resp :: poll_resp where
  "quota_resp = answered ''quota_exceeded'' [''step 1''] ''remote text''"

section \<open>Properties\<close>

subsection \<open>Renders and the polling effect\<close>

lemma render_cells:
  "task (render w) = task w" "userInput (render w) = userInput w"
  "status (render w) = status w" "logs (render w) = logs w"
  "screenshotUrl (render w) = screenshotUrl w" "loading (render w) = loading w"
  "logsOpen (render w) = logsOpen w" "fresh (render w) = fresh w"
  "planningStuck (render w) = planningStuck w"
  "editingUserInput (render w) = editingUserInput w" "killing (render w) = killing w"
  "quotaError (render w) = quotaError w" "pendingQuestion (render w) = pendingQuestion w"
  "pendingAnswer (render w) = pendingAnswer w" "alerts (render w) = alerts w"
  "now (render w) = now w"
  by (simp_all add: render_def effect_run_def effect_cleanup_def)

lemma render_synced_id: "effect_synced w \<Longrightarrow> render w = w"
  by (simp add: render_def effect_synced_def)

lemma render_synced:
  "interval w = (\<not> dep_fresh w \<and> \<not> dep_quotaError w) \<Longrightarrow> effect_synced (render w)"
  by (auto simp add: render_def effect_synced_def effect_run_def effect_cleanup_def)

lemma synced_effect_ok:
  "effect_synced w \<Longrightarrow> interval w = (\<not> dep_fresh w \<and> \<not> dep_quotaError w)"
  by (simp add: effect_synced_def)

lemma mount_synced: "effect_synced (mount t)"
  by (simp add: mount_def effect_synced_def effect_run_def)

lemmas handler_defs = submitTask_def submitTask_begin_def submitTask_end_def
  submitUserInput_def resetAgent_def killSwitch_def killSwitch_writes_def clearLogs_def
  submitPendingAnswer_def poll_question_def alert_def reload_def

lemma poll_effect_fields:
  "interval (poll r w) = interval w" "dep_fresh (poll r w) = dep_fresh w"
  "dep_quotaError (poll r w) = dep_quotaError w" "fresh (poll r w) = fresh w"
  "quotaError (poll r w) = quotaError w"
  "poll_editingUserInput (poll r w) = poll_editingUserInput w"
  "editingUserInput (poll r w) = editingUserInput w"
  by (simp_all add: poll_def Let_def split: option.splits)

lemma poll_synced: "effect_synced w \<Longrightarrow> effect_synced (poll r w)"
  by (simp add: effect_synced_def poll_effect_fields)

lemma handler_effect_fields:
  "interval (submitTask r w) = interval w \<and> dep_fresh (submitTask r w) = dep_fresh w
     \<and> dep_quotaError (submitTask r w) = dep_quotaError w"
  "interval (submitUserInput r w) = interval w \<and> dep_fresh (submitUserInput r w) = dep_fresh w
     \<and> dep_quotaError (submitUserInput r w) = dep_quotaError w"
  "interval (resetAgent r w) = interval w \<and> dep_fresh (resetAgent r w) = dep_fresh w
     \<and> dep_quotaError (resetAgent r w) = dep_quotaError w"
  "interval (killSwitch_writes r w) = interval w
     \<and> dep_fresh (killSwitch_writes r w) = dep_fresh w
     \<and> dep_quotaError (killSwitch_writes r w) = dep_quotaError w"
  "interval (clearLogs r w) = interval w \<and> dep_fresh (clearLogs r w) = dep_fresh w
     \<and> dep_quotaError (clearLogs r w) = dep_quotaError w"
  "interval (submitPendingAnswer r w) = interval w
     \<and> dep_fresh (submitPendingAnswer r w) = dep_fresh w
     \<and> dep_quotaError (submitPendingAnswer r w) = dep_quotaError w"
  "interval (poll_question q w) = interval w \<and> dep_fresh (poll_question q w) = dep_fresh w
     \<and> dep_quotaError (poll_question q w) = dep_quotaError w"
  by (cases r; simp add: handler_defs; fail | cases q; simp add: handler_defs)+

lemma killSwitch_effect_ok:
  assumes "interval w = (\<not> dep_fresh w \<and> \<not> dep_quotaError w)"
  shows "interval (killSwitch r w)
         = (\<not> dep_fresh (killSwitch r w) \<and> \<not> dep_quotaError (killSwitch r w))"
proof (cases r)
  case Resolved
  then show ?thesis by (simp add: killSwitch_def reload_def mount_def effect_run_def)
next
  case (Rejected e)
  then show ?thesis using assms by (simp add: killSwitch_def handler_effect_fields)
qed

text \<open>Every event keeps the polling effect consistent with the page.\<close>

lemma step_synced:
  assumes "effect_synced w"
  shows "effect_synced (step e w)"
proof (cases e)
  case (Elapse d)
  then show ?thesis using assms
    by (simp add: elapse_def effect_synced_def Let_def split: option.splits timer.splits)
next
  case (Poll r)
  then show ?thesis using assms by (simp add: render_synced_id poll_synced)
next
  case (KillSwitch r)
  then show ?thesis using assms
    by (simp add: render_synced killSwitch_effect_ok synced_effect_ok)
qed (use assms in \<open>simp_all add: render_synced handler_effect_fields synced_effect_ok\<close>)

lemma run_synced: "effect_synced w \<Longrightarrow> effect_synced (run es w)"
  by (induction es arbitrary: w) (simp_all add: step_synced)

lemma run_append: "run (xs @ ys) w = run ys (run xs w)"
  by (induction xs arbitrary: w) simp_all

lemmas trace_defs = start_task_def planning_poll_def idle_poll_def quota_poll_def
  typing_trace_def answered_def empty_snapshot_def mount_def effect_run_def
  effect_cleanup_def render_def submitTask_def submitTask_begin_def submitTask_end_def
  poll_def clearTimeout_def elapse_def

subsection \<open>The edit guard\<close>

text \<open>
  What the guard in \<open>poll\<close> does achieve: a closure that was created while the field
  was being edited never assigns to \<open>userInput\<close>.
\<close>

lemma poll_guard_closed:
  "poll_editingUserInput w \<Longrightarrow> userInput (poll r w) = userInput w"
  by (simp add: poll_def Let_def split: option.splits)

text \<open>The cycle does not read the cell \<open>editingUserInput\<close> itself.\<close>

lemma poll_ignores_editing_cell:
  "poll r (w\<lparr>editingUserInput := b\<rparr>) = (poll r w)\<lparr>editingUserInput := b\<rparr>"
  by (simp add: poll_def Let_def split: option.splits)

lemma polls_guard_closed:
  "effect_synced w \<Longrightarrow> poll_editingUserInput w \<Longrightarrow>
     userInput (run (map Poll rs) w) = userInput w"
proof (induction rs arbitrary: w)
  case Nil
  then show ?case by simp
next
  case (Cons r rs)
  have "effect_synced (step (Poll r) w)" using Cons.prems(1) by (rule step_synced)
  moreover have "poll_editingUserInput (step (Poll r) w)"
    using Cons.prems by (simp add: render_synced_id poll_synced poll_effect_fields)
  moreover have "userInput (step (Poll r) w) = userInput w"
    using Cons.prems by (simp add: render_cells poll_guard_closed)
  ultimately show ?case using Cons.IH [of "step (Poll r) w"] by simp
qed

text \<open>
  C1. The claim: while \<open>editingUserInput\<close> is true, no poll cycle changes
  \<open>userInput\<close>. The code tests the value of \<open>editingUserInput\<close> that \<open>poll\<close> closed
  over when the effect last ran, and the effect runs again only when \<open>fresh\<close> or
  \<open>quotaError\<close> changes. After a task has been sent (no field being edited), the operator
  focuses the direction field and types \<open>please wait\<close>: \<open>editingUserInput\<close> is true
  before and after the next poll cycle, and that cycle replaces the typed text by the
  remote value, here the empty string.
\<close>

theorem typed_text_overwritten_while_editing:
  "editingUserInput (run typing_trace (mount 0))
   \<and> userInput (run typing_trace (mount 0)) = ''please wait''
   \<and> editingUserInput (step (Poll (answered ''planning'' [] '''')) (run typing_trace (mount 0)))
   \<and> userInput (step (Poll (answered ''planning'' [] '''')) (run typing_trace (mount 0))) = ''''"
  by (simp add: trace_defs)

subsection \<open>The planning timer\<close>

lemma keep_planning_numeral:
  "keep_planning (numeral k) = Elapse 3000 # planning_poll # keep_planning (pred_numeral k)"
  by (simp add: numeral_eq_Suc)

lemma dead_timer_elapse:
  "planningTimer w = Some Cleared \<Longrightarrow> elapse d w = w\<lparr>now := now w + d\<rparr>"
  by (simp add: elapse_def)

lemma dead_timer_planning_poll:
  assumes "planningTimer w = Some Cleared"
  shows "planningTimer (poll (answered ''planning'' lg ui) w) = Some Cleared
         \<and> planningStuck (poll (answered ''planning'' lg ui) w) = planningStuck w"
  using assms by (simp add: poll_def answered_def empty_snapshot_def Let_def)

text \<open>
  Once the variable \<open>planningTimer\<close> holds a cancelled timer, polls that report
  \<open>planning\<close> start no new one, however many follow.
\<close>

lemma keep_planning_dead:
  "effect_synced w \<Longrightarrow> planningTimer w = Some Cleared \<Longrightarrow> \<not> planningStuck w \<Longrightarrow>
     \<not> planningStuck (run (keep_planning n) w)"
proof (induction n arbitrary: w)
  case 0
  then show ?case by simp
next
  case (Suc n)
  let ?w1 = "step (Elapse 3000) w"
  let ?w2 = "step planning_poll ?w1"
  have s1: "effect_synced ?w1" using Suc.prems(1) by (rule step_synced)
  have t1: "planningTimer ?w1 = Some Cleared"
    using Suc.prems(2) by (simp add: dead_timer_elapse)
  have p1: "\<not> planningStuck ?w1"
    using Suc.prems(2,3) by (simp add: dead_timer_elapse)
  have s2: "effect_synced ?w2" using s1 by (rule step_synced)
  have t2: "planningTimer ?w2 = Some Cleared"
    using s1 t1 dead_timer_planning_poll [of ?w1 "[]" "''''"]
    by (simp add: planning_poll_def render_synced_id poll_synced del: step.simps(1))
  have p2: "\<not> planningStuck ?w2"
    using s1 t1 p1 dead_timer_planning_poll [of ?w1 "[]" "''''"]
    by (simp add: planning_poll_def render_synced_id poll_synced del: step.simps(1))
  have "\<not> planningStuck (run (keep_planning n) ?w2)"
    using s2 t2 p2 by (rule Suc.IH)
  then show ?case by simp
qed

lemma reentry_state:
  "effect_synced (run reentry (mount 0))
   \<and> planningTimer (run reentry (mount 0)) = Some Cleared
   \<and> \<not> planningStuck (run reentry (mount 0))
   \<and> sn_status (status (run reentry (mount 0))) = Some ''planning''"
  by (simp add: reentry_def trace_defs effect_synced_def)

text \<open>
  C2. The claim: \<open>planningStuck\<close> becomes true once \<open>planning\<close> has lasted 30 seconds,
  leaving \<open>planning\<close> resets it and cancels the timer, and a return to \<open>planning\<close>
  starts a new 30 second timer. In the code the first stay works: with polls every
  3000 ms the flag is still false after 27 seconds and true after 30. But
  \<open>clearTimeout\<close> leaves the id in the variable \<open>planningTimer\<close>, so on the return to
  \<open>planning\<close> the test \<open>!planningTimer\<close> fails and no timer is started: after
  planning, idle, planning the flag stays false for any number \<open>n\<close> of further
  planning polls.
\<close>

theorem planning_reentry_never_stuck:
  "\<not> planningStuck (run (start_task @ planning_poll # keep_planning 9) (mount 0))
   \<and> planningStuck (run (start_task @ planning_poll # keep_planning 10) (mount 0))
   \<and> sn_status (status (run reentry (mount 0))) = Some ''planning''
   \<and> planningTimer (run reentry (mount 0)) = Some Cleared
   \<and> \<not> planningStuck (run (reentry @ keep_planning n) (mount 0))"
proof -
  have before: "\<not> planningStuck (run (start_task @ planning_poll # keep_planning 9) (mount 0))"
    by (simp add: keep_planning_numeral trace_defs)
  have first: "planningStuck (run (start_task @ planning_poll # keep_planning 10) (mount 0))"
    by (simp add: keep_planning_numeral trace_defs)
  have "\<not> planningStuck (run (keep_planning n) (run reentry (mount 0)))"
    using reentry_state by (intro keep_planning_dead) simp_all
  then show ?thesis using before first reentry_state by (simp add: run_append)
qed

text \<open>
  The quota branch of \<open>poll\<close> returns before the timer is looked at: a timer started
  by a planning poll stays pending through a \<open>quota_exceeded\<close> poll and sets the flag
  when it is due.
\<close>

lemma quota_poll_keeps_timer:
  "planningTimer (run (start_task @ [planning_poll, Elapse 3000, quota_poll]) (mount 0))
     = Some (Pending 30000)
   \<and> planningStuck
       (run (start_task @ [planning_poll, Elapse 3000, quota_poll, Elapse 27000]) (mount 0))"
  by (simp add: trace_defs)

subsection \<open>The quota flag and the polling loop\<close>

text \<open>No event sets \<open>quotaError\<close>: from the first render on it is false.\<close>

lemma step_quotaError: "quotaError (step e w) \<Longrightarrow> quotaError w"
proof (cases e)
  case (Elapse d)
  assume "quotaError (step e w)"
  then show ?thesis using Elapse
    by (simp add: elapse_def Let_def split: option.splits timer.splits if_splits)
next
  case (Poll r)
  assume "quotaError (step e w)"
  then show ?thesis using Poll
    by (simp add: render_cells poll_effect_fields split: if_splits)
qed (auto simp add: render_cells handler_defs mount_def effect_run_def Let_def
      split: http_result.splits option.splits)

lemma run_quotaError: "quotaError (run es w) \<Longrightarrow> quotaError w"
  by (induction es arbitrary: w) (auto dest: step_quotaError)

lemma quotaError_never_set: "\<not> quotaError (run es (mount t))"
proof
  assume "quotaError (run es (mount t))"
  then have "quotaError (mount t)" by (rule run_quotaError)
  then show False by (simp add: mount_def effect_run_def)
qed

text \<open>The interval is set exactly while the page is neither fresh nor over quota.\<close>

lemma loop_runs_iff:
  "interval (run es (mount t))
     = (\<not> fresh (run es (mount t)) \<and> \<not> quotaError (run es (mount t)))"
  using run_synced [OF mount_synced, of es t] by (simp add: effect_synced_def)

text \<open>
  C3. The claim: the loop runs exactly while \<open>fresh\<close> and \<open>quotaError\<close> are false, and
  a poll that sees \<open>quota_exceeded\<close> sets the quota flag and halts the loop, with Reset
  and Kill still at hand. In the code the hook is not given \<open>setQuotaError\<close> and nothing
  else sets the flag: after a poll that reports \<open>quota_exceeded\<close> the flag is false, the
  interval is still set, the Reset button is not rendered, and the next poll cycle runs
  and stores the status it fetched.
\<close>

theorem quota_exceeded_poll_keeps_loop:
  "\<not> fresh (run (start_task @ [quota_poll]) (mount 0))
   \<and> sn_status (status (run (start_task @ [quota_poll]) (mount 0))) = Some ''quota_exceeded''
   \<and> \<not> quotaError (run (start_task @ [quota_poll]) (mount 0))
   \<and> interval (run (start_task @ [quota_poll]) (mount 0))
   \<and> \<not> resetButton_shown (run (start_task @ [quota_poll]) (mount 0))
   \<and> sn_status (status (run (start_task @ [quota_poll, Elapse 3000, idle_poll]) (mount 0)))
       = Some ''idle''"
  by (simp add: trace_defs resetButton_shown_def ready_status_def)

subsection \<open>Sending a task\<close>

text \<open>
  C4, as the claim states it: sending a task is permitted whenever \<open>fresh\<close> is true.
  While a submission from the fresh page is in flight, \<open>fresh\<close> is true and the quota
  flag is false, yet the task field and its Send button are disabled.
\<close>

theorem task_input_disabled_in_flight:
  "fresh (submitTask_begin typed_task)
   \<and> \<not> quotaError (submitTask_begin typed_task)
   \<and> task (submitTask_begin typed_task) = ''Open the calculator app''
   \<and> taskInput_loading (submitTask_begin typed_task)
   \<and> taskSend_disabled (submitTask_begin typed_task)"
  by (simp add: typed_task_def submitTask_begin_def taskInput_loading_def
      taskSend_disabled_def mount_def effect_run_def render_def)

text \<open>
  C4, amended. The task field and its Send button are disabled whenever the page is not
  fresh and the last status is none of \<open>idle\<close>, \<open>completed\<close>, \<open>aborted\<close>, and
  whenever the quota flag is set. When no operation is in flight (\<open>loading\<close> and
  \<open>killing\<close> false), the quota flag is false, and the page is fresh or the last status
  is one of the three, the task field is enabled, and the Send button is enabled exactly
  when the task text is not empty.
\<close>

theorem task_input_gate:
  "((\<not> fresh w \<and> \<not> ready_status (status w)) \<or> quotaError w
      \<longrightarrow> taskInput_loading w \<and> taskSend_disabled w)
   \<and> (\<not> loading w \<and> \<not> killing w \<and> \<not> quotaError w \<and> (fresh w \<or> ready_status (status w))
      \<longrightarrow> \<not> taskInput_loading w \<and> (taskSend_disabled w \<longleftrightarrow> task w = ''''))"
  by (auto simp add: taskInput_loading_def taskSend_disabled_def)

theorem task_input_gate_witness:
  "(\<not> fresh busy \<and> \<not> ready_status (status busy))
   \<and> taskInput_loading busy \<and> taskSend_disabled busy
   \<and> (\<not> loading typed_task \<and> \<not> killing typed_task \<and> \<not> quotaError typed_task
        \<and> fresh typed_task)
   \<and> \<not> taskInput_loading typed_task \<and> \<not> taskSend_disabled typed_task"
proof -
  have b: "\<not> fresh busy \<and> \<not> ready_status (status busy)"
    by (simp add: busy_def trace_defs ready_status_def)
  have t: "\<not> loading typed_task \<and> \<not> killing typed_task \<and> \<not> quotaError typed_task
           \<and> fresh typed_task \<and> task typed_task \<noteq> ''''"
    by (simp add: typed_task_def mount_def effect_run_def render_def)
  show ?thesis
    using b t task_input_gate [of busy] task_input_gate [of typed_task] by simp
qed

text \<open>
  C5. When the request of \<open>submitTask\<close> resolves, the task field becomes empty and
  \<open>fresh\<close> becomes false, and after the render that follows the polling interval is set
  (the quota flag being false). When the request is rejected, an alert shows the error
  text of the server, or \<open>Failed to submit task\<close> when there is none, and the task text
  and \<open>fresh\<close> stay as they were.
\<close>

theorem submitTask_outcomes:
  "task (submitTask Resolved w) = '''' \<and> \<not> fresh (submitTask Resolved w)
   \<and> task (step (SubmitTask Resolved) w) = '''' \<and> \<not> fresh (step (SubmitTask Resolved) w)
   \<and> (effect_synced w \<and> \<not> quotaError w \<longrightarrow> interval (step (SubmitTask Resolved) w))
   \<and> alerts (submitTask (Rejected e) w) = alerts w @ [task_error_message e]
   \<and> task_error_message None = ''Failed to submit task''
   \<and> task_error_message (Some m) = (if m = '''' then ''Failed to submit task'' else m)
   \<and> task (submitTask (Rejected e) w) = task w
   \<and> fresh (submitTask (Rejected e) w) = fresh w"
  by (auto simp add: submitTask_def submitTask_begin_def submitTask_end_def alert_def
      task_error_message_def render_def effect_run_def effect_cleanup_def effect_synced_def)

theorem submitTask_outcomes_witness:
  "(effect_synced typed_task \<and> \<not> quotaError typed_task)
   \<and> \<not> interval typed_task
   \<and> interval (step (SubmitTask Resolved) typed_task)
   \<and> task (step (SubmitTask Resolved) typed_task) = ''''
   \<and> alerts (submitTask (Rejected (Some ''Agent is busy'')) typed_task) = [''Agent is busy'']
   \<and> task (submitTask (Rejected (Some ''Agent is busy'')) typed_task)
       = ''Open the calculator app''"
proof -
  have h: "effect_synced typed_task \<and> \<not> quotaError typed_task \<and> \<not> interval typed_task
           \<and> alerts typed_task = [] \<and> task typed_task = ''Open the calculator app''"
    by (simp add: typed_task_def mount_def effect_run_def render_def effect_synced_def)
  show ?thesis
    using h submitTask_outcomes [of typed_task "Some ''Agent is busy''" "''Agent is busy''"]
    by simp
qed

subsection \<open>Kill, answer, reset\<close>

text \<open>
  C6. After a Kill whose request resolves, whatever the page held before, the status
  object is the empty object, the logs are empty, the direction text is empty, there is
  no pending question and no answer draft, and \<open>fresh\<close> is true. The handler itself
  clears status, logs and direction text and sets \<open>fresh\<close>; the pending question goes
  with the reload of the page that ends the handler.
\<close>

theorem killSwitch_resolved_clears:
  "status (killSwitch Resolved w) = empty_snapshot
   \<and> logs (killSwitch Resolved w) = []
   \<and> userInput (killSwitch Resolved w) = ''''
   \<and> pendingQuestion (killSwitch Resolved w) = None
   \<and> pendingAnswer (killSwitch Resolved w) = ''''
   \<and> fresh (killSwitch Resolved w)
   \<and> status (killSwitch_writes Resolved w) = empty_snapshot
   \<and> logs (killSwitch_writes Resolved w) = []
   \<and> userInput (killSwitch_writes Resolved w) = ''''
   \<and> fresh (killSwitch_writes Resolved w)"
  by (simp add: killSwitch_def killSwitch_writes_def reload_def mount_def effect_run_def)

text \<open>
  C7. An answer whose request resolves clears the pending question and the answer
  draft; and whether the request resolves or not, \<open>submitPendingAnswer\<close> leaves the
  direction text as it is.
\<close>

theorem submitPendingAnswer_clears:
  "pendingQuestion (submitPendingAnswer Resolved w) = None
   \<and> pendingAnswer (submitPendingAnswer Resolved w) = ''''
   \<and> userInput (submitPendingAnswer r w) = userInput w"
  by (cases r) (simp_all add: submitPendingAnswer_def)

text \<open>
  C8. When the request made by Reset is rejected, task, direction text, status, logs,
  screenshot reference, log panel visibility, \<open>fresh\<close> and the quota flag keep their
  values, and the alert \<open>Failed to reset agent\<close> is shown.
\<close>

theorem resetAgent_rejected_keeps_state:
  "task (resetAgent (Rejected e) w) = task w
   \<and> userInput (resetAgent (Rejected e) w) = userInput w
   \<and> status (resetAgent (Rejected e) w) = status w
   \<and> logs (resetAgent (Rejected e) w) = logs w
   \<and> screenshotUrl (resetAgent (Rejected e) w) = screenshotUrl w
   \<and> logsOpen (resetAgent (Rejected e) w) = logsOpen w
   \<and> fresh (resetAgent (Rejected e) w) = fresh w
   \<and> quotaError (resetAgent (Rejected e) w) = quotaError w
   \<and> alerts (resetAgent (Rejected e) w) = alerts w @ [''Failed to reset agent'']"
  by (simp add: resetAgent_def alert_def)

subsection \<open>Sending a direction\<close>

text \<open>
  What \<open>submitUserInput\<close> does to the flag: a request that resolves sets
  \<open>editingUserInput\<close> to false, a rejected one leaves it as it is.
\<close>

lemma submitUserInput_flag:
  "\<not> editingUserInput (submitUserInput Resolved w)
   \<and> editingUserInput (submitUserInput (Rejected e) w) = editingUserInput w"
  by (simp add: submitUserInput_def alert_def)

text \<open>
  The send does not reach the closure of the polling effect: \<open>fresh\<close> and
  \<open>quotaError\<close> are as before, so the effect is not run again.
\<close>

lemma submitUserInput_keeps_closure:
  "effect_synced w \<Longrightarrow>
     poll_editingUserInput (step (SubmitUserInput r) w) = poll_editingUserInput w"
  by (cases r) (simp_all add: submitUserInput_def alert_def render_def effect_synced_def)


subsection \<open>The quota branch of a poll cycle\<close>

text \<open>
  C10. A poll cycle whose fetched status is \<open>quota_exceeded\<close> stores the status object,
  sets \<open>planningStuck\<close> to false and returns: logs, direction text and screenshot
  reference are as before the cycle.
\<close>

theorem poll_quota_exceeded_leaves_rest:
  assumes "r_status r = Some st" and "sn_status st = Some ''quota_exceeded''"
  shows "poll r w = w\<lparr>status := st, planningStuck := False\<rparr>
         \<and> \<not> planningStuck (poll r w)
         \<and> logs (poll r w) = logs w
         \<and> userInput (poll r w) = userInput w
         \<and> screenshotUrl (poll r w) = screenshotUrl w
         \<and> logs (step (Poll r) w) = logs w
         \<and> userInput (step (Poll r) w) = userInput w
         \<and> screenshotUrl (step (Poll r) w) = screenshotUrl w"
  using assms by (simp add: poll_def render_cells)

theorem poll_quota_exceeded_leaves_rest_witness:
  "r_status quota_resp = Some (empty_snapshot\<lparr>sn_status := Some ''quota_exceeded''\<rparr>)
   \<and> sn_status (empty_snapshot\<lparr>sn_status := Some ''quota_exceeded''\<rparr>) = Some ''quota_exceeded''
   \<and> logs (poll quota_resp busy) = logs busy
   \<and> userInput (poll quota_resp busy) = userInput busy
   \<and> screenshotUrl (poll quota_resp busy) = screenshotUrl busy"
proof -
  have h1: "r_status quota_resp = Some (empty_snapshot\<lparr>sn_status := Some ''quota_exceeded''\<rparr>)"
    by (simp add: quota_resp_def answered_def)
  have h2: "sn_status (empty_snapshot\<lparr>sn_status := Some ''quota_exceeded''\<rparr>) = Some ''quota_exceeded''"
    by simp
  show ?thesis
    using h1 h2 poll_quota_exceeded_leaves_rest [OF h1 h2, of busy] by simp
qed

end
